theory Spec2Isabelle
  imports Main "HOL-Library.Char_ord" "HOL-Library.List_Lexorder"
begin

section \<open>NginxSourceViewer: the configuration generator \<open>generate_config.py\<close>\<close>

text \<open>
  The generator is one function, \<open>run(languages, styles=None)\<close>, with two helpers
  (\<open>create_script_tag\<close>, \<open>get_cdn_files\<close>) and three string constants. Python strings are
  modelled as \<open>string\<close> (lists of characters, compared by character code, so that
  \<open>sorted\<close> is the lexicographic order of \<open>HOL-Library.List_Lexorder\<close>), the dictionary
  \<open>languages\<close> as the list of its items in insertion order, and every \<open>raise\<close> as a value
  \<open>Inl e\<close> of the result type.
\<close>

subsection \<open>Errors\<close>

datatype error =
  CatalogError
    \<comment> \<open>\<open>get_cdn_files\<close> raised: the request failed or the payload has no \<open>assets[0]\<close>\<close>
| KeyError string
    \<comment> \<open>\<open>Template.substitute\<close>: a placeholder without a value\<close>
| ValueError_remove
    \<comment> \<open>\<open>styles.remove('default')\<close>: the element is not in the list\<close>
| ValueError_single_quotes
    \<comment> \<open>line 114: single quotes in the HTML (the spec's UnsafeLiteralError)\<close>
| ValueError_too_long
    \<comment> \<open>line 123: minified HTML longer than 4096-20 (the spec's ConfigTooLargeError)\<close>

subsection \<open>What the generator takes from outside\<close>

text \<open>
  Three things are not code of the generator and are parameters of the model:
  the catalog query \<open>get_cdn_files\<close> (a network request), the library function
  \<open>htmlmin.minify\<close> with the options of line 119, and the order in which the interpreter
  iterates over a \<open>set\<close> of strings. That order is not a function of the set's elements
  alone (string hashes are salted per process), so it is a parameter too.
\<close>

record externals =
  get_cdn_files :: "string \<Rightarrow> error + string \<times> string list"
  minify :: "string \<Rightarrow> string"
  set_iter :: "string set \<Rightarrow> string list"

subsection \<open>String operations of Python\<close>

definition startswith :: "string \<Rightarrow> string \<Rightarrow> bool" where
  "startswith x p = (take (length p) x = p)"

definition endswith :: "string \<Rightarrow> string \<Rightarrow> bool" where
  "endswith x s = (length s \<le> length x \<and> drop (length x - length s) x = s)"

text \<open>The slice \<open>x[a:-b]\<close> for \<open>b > 0\<close>: the characters at the indices \<open>a \<le> i < len(x) - b\<close>.\<close>

definition slice :: "nat \<Rightarrow> nat \<Rightarrow> string \<Rightarrow> string" where
  "slice a b x = drop a (take (length x - b) x)"

text \<open>\<open>sep.join(xs)\<close>.\<close>

fun join :: "string \<Rightarrow> string list \<Rightarrow> string" where
  "join sep [] = []"
| "join sep [x] = x"
| "join sep (x # y # ys) = x @ sep @ join sep (y # ys)"

text \<open>
  \<open>json.dumps(styles, separators=(',', ':'))\<close> on a list of strings, with the default
  \<open>ensure_ascii\<close>: each string between double quotes, backslash and double quote escaped,
  the five short escapes, and \<open>\u00xx\<close> for every other character outside \<open>' '..'~'\<close>.
\<close>

definition hex_digit :: "nat \<Rightarrow> char" where
  "hex_digit n = ''0123456789abcdef'' ! (n mod 16)"

definition json_escape :: "char \<Rightarrow> string" where
  "json_escape c =
     (if c = CHR 0x5C then [CHR 0x5C, CHR 0x5C]
      else if c = CHR 0x22 then [CHR 0x5C, CHR 0x22]
      else if c = CHR 0x08 then [CHR 0x5C, CHR ''b'']
      else if c = CHR 0x0C then [CHR 0x5C, CHR ''f'']
      else if c = CHR 0x0A then [CHR 0x5C, CHR ''n'']
      else if c = CHR 0x0D then [CHR 0x5C, CHR ''r'']
      else if c = CHR 0x09 then [CHR 0x5C, CHR ''t'']
      else if (of_char c :: nat) < 0x20 \<or> 0x7E < (of_char c :: nat)
        then [CHR 0x5C, CHR ''u'', CHR ''0'', CHR ''0'',
              hex_digit (of_char c div 16), hex_digit (of_char c)]
      else [c])"

definition json_string :: "string \<Rightarrow> string" where
  "json_string s = [CHR 0x22] @ concat (map json_escape s) @ [CHR 0x22]"

definition json_dumps :: "string list \<Rightarrow> string" where
  "json_dumps xs = ''['' @ join '','' (map json_string xs) @ '']''"

subsection \<open>\<open>string.Template\<close>\<close>

text \<open>
  A template is the sequence of literal texts and \<open>${name}\<close> placeholders that
  \<open>string.Template\<close> reads it as, the escape \<open>$$\<close> being the literal \<open>$\<close>. Values are
  inserted as they are and never scanned again.
\<close>

datatype segment = Literal string | Placeholder string

fun substitute :: "segment list \<Rightarrow> (string \<rightharpoonup> string) \<Rightarrow> error + string" where
  "substitute [] m = Inr []"
| "substitute (Literal s # segs) m =
     (case substitute segs m of Inl e \<Rightarrow> Inl e | Inr r \<Rightarrow> Inr (s @ r))"
| "substitute (Placeholder k # segs) m =
     (case m k of
        None \<Rightarrow> Inl (KeyError k)
      | Some v \<Rightarrow> (case substitute segs m of Inl e \<Rightarrow> Inl e | Inr r \<Rightarrow> Inr (v @ r)))"

subsection \<open>The constants\<close>

definition MINIFIED_CSS :: string where
  \<open>MINIFIED_CSS =
     ''body,html,pre{min-height:100%}.hljs{font-family:"Fira Code",monospace!important}.wrap{whit'' @
     ''e-space:pre-wrap;word-wrap:break-word}td.hljs-ln-code{padding-left:10px!important}td.hljs-'' @
     ''ln-numbers{user-select:none;text-align:right;color:#ccc;border-right:1px solid #ccc;vertic'' @
     ''al-align:top;padding-right:5px!important} ''\<close>

definition MINIFIED_JS :: string where
  \<open>MINIFIED_JS =
     ''const j=jQuery,ls=localStorage,RAW_URL="$uri?raw=1";var gStyle=STYLES[0];function set_styl'' @
     ''e(e){j("#css").attr("href",j("#js").attr("src").replace(/lang.+/,"styles/"+e+".min.css")),'' @
     ''j("#style").text(e.replace(/[-_]/g," ")),gStyle=e,ls.setItem("style",e)}function move_styl'' @
     ''e(e){let t=STYLES.indexOf(gStyle)+e;t<0&&(t+=STYLES.length),set_style(STYLES[t%STYLES.leng'' @
     ''th])}function toggle_wrap(){let e=j("#code"),t=0!=arguments.length?arguments[0]:!e.hasClas'' @
     ''s("wrap");t?e.addClass("wrap"):e.removeClass("wrap"),ls.setItem("wrap",t)}hljs.configure({'' @
     ''tabReplace:" "}),j(function(){null!==ls.getItem("style")?set_style(ls.getItem("style")):se'' @
     ''t_style(gStyle),null!==ls.getItem("wrap")&&toggle_wrap(ls.getItem("wrap")),j.get({url:RAW_'' @
     ''URL,dataType:"text"}).done(function(e){let t=j("#code").text(e)[0];hljs.highlightBlock(t),'' @
     ''hljs.lineNumbersBlock(t)}),j("#nxtstyle").click(function(){move_style(1)}),j("#prvstyle").'' @
     ''click(function(){move_style(-1)}),j("#wrap").click(function(){toggle_wrap()})});''\<close>

text \<open>\<open>MAGIC_HTML\<close>, cut at its placeholders: the literal texts between them first.\<close>

definition MAGIC_HTML_0 :: string where
  \<open>MAGIC_HTML_0 =
       ''<!DOCTYPE html>\<newline>'' @
       ''<html lang="en">\<newline>'' @
       ''<head>\<newline>'' @
       ''    <meta charset="UTF-8">\<newline>'' @
       ''    <meta name="generator" content="NginxSourceViewer by Dries007: https://github.com/drie'' @
       ''s007/NginxSourceViewer">\<newline>'' @
       ''    <link id="css" rel="stylesheet">\<newline>'' @
       ''    <style>''\<close>

definition MAGIC_HTML_1 :: string where
  \<open>MAGIC_HTML_1 =
       ''</style>\<newline>'' @
       ''    <title>$uri</title>\<newline>'' @
       ''</head>\<newline>'' @
       ''<body class="hljs">\<newline>'' @
       ''    ''\<close>

definition MAGIC_HTML_2 :: string where
  \<open>MAGIC_HTML_2 =
       ''\<newline>'' @
       ''    <script id="js" src="https://cdnjs.cloudflare.com/ajax/libs/highlight.js/''\<close>

definition MAGIC_HTML_3 :: string where
  \<open>MAGIC_HTML_3 =
       ''/languages/$lang.min.js"></script>\<newline>'' @
       ''    <script>const STYLES=''\<close>

definition MAGIC_HTML_4 :: string where
  \<open>MAGIC_HTML_4 = '';''\<close>

definition MAGIC_HTML_5 :: string where
  \<open>MAGIC_HTML_5 =
       ''</script>\<newline>'' @
       ''    <div>\<newline>'' @
       ''        <a href="./" class="hljs-subst">Show directory.</a>&nbsp;&nbsp;|&nbsp;&nbsp;\<newline>'' @
       ''        <a href="$uri?raw=1" class="hljs-subst">Get the raw file here.</a>&nbsp;&nbsp;|&nb'' @
       ''sp;&nbsp;\<newline>'' @
       ''        <a href="#" id="prvstyle" class="hljs-subst">&larr;</a>&nbsp;Style&nbsp;\<newline>'' @
       ''        "<span id="style" style="text-transform: capitalize; display: inline-block; min-wi'' @
       ''dth: 20ch;"></span>"\<newline>'' @
       ''        &nbsp;<a href="#" id="nxtstyle" class="hljs-subst">&rarr;</a>&nbsp;&nbsp;|&nbsp;&n'' @
       ''bsp;\<newline>'' @
       ''        <a href="#" id="wrap" class="hljs-subst">Toggle wrapping.</a>\<newline>'' @
       ''    </div>\<newline>'' @
       ''    <pre><code id="code" class="$lang"></code></pre> </body>\<newline>'' @
       ''</html>''\<close>

definition MAGIC_HTML :: "segment list" where
  "MAGIC_HTML =
     [Literal MAGIC_HTML_0, Placeholder ''css'',
      Literal MAGIC_HTML_1, Placeholder ''scripts'',
      Literal MAGIC_HTML_2, Placeholder ''highlight_version'',
      Literal MAGIC_HTML_3, Placeholder ''styles'',
      Literal MAGIC_HTML_4, Placeholder ''js'',
      Literal MAGIC_HTML_5]"

subsection \<open>\<open>create_script_tag\<close>\<close>

definition create_script_tag :: "string \<Rightarrow> string \<Rightarrow> string \<Rightarrow> string" where
  \<open>create_script_tag lib version file =
     (let url = ''https://cdnjs.cloudflare.com/ajax/libs/'' @ lib @ ''/'' @ version @ ''/'' @ file
      in ''<script src="'' @ url @ ''"></script>'')\<close>

subsection \<open>\<open>run\<close>, part by part\<close>

text \<open>Lines 67-69: the three catalog queries, in order; the first failure ends the run.\<close>

definition fetch :: "externals \<Rightarrow> error + (string \<times> string list) \<times> (string \<times> string list) \<times> (string \<times> string list)" where
  "fetch E =
     (case get_cdn_files E ''jquery'' of
        Inl e \<Rightarrow> Inl e
      | Inr jquery \<Rightarrow>
     (case get_cdn_files E ''highlight.js'' of
        Inl e \<Rightarrow> Inl e
      | Inr highlight \<Rightarrow>
     (case get_cdn_files E ''highlightjs-line-numbers.js'' of
        Inl e \<Rightarrow> Inl e
      | Inr line_numbers \<Rightarrow> Inr (jquery, highlight, line_numbers))))"

text \<open>Lines 76 and 78: \<open>{x[10:-7] for x in highlight_files if x.startswith('languages/')}\<close>
  and \<open>{x[7:-8] for x in highlight_files if x.startswith('styles/')}\<close>.\<close>

definition possible_languages :: "string list \<Rightarrow> string set" where
  "possible_languages highlight_files =
     set (map (slice 10 7) (filter (\<lambda>x. startswith x ''languages/'') highlight_files))"

definition possible_styles :: "string list \<Rightarrow> string set" where
  "possible_styles highlight_files =
     set (map (slice 7 8) (filter (\<lambda>x. startswith x ''styles/'') highlight_files))"

text \<open>Lines 83-86: the style list when the caller gives none. \<open>list.remove\<close> raises
  when the element is absent; \<open>insert(0, x)\<close> puts \<open>x\<close> in front.\<close>

definition default_styles :: "string set \<Rightarrow> error + string list" where
  "default_styles possible =
     (let styles = sorted_list_of_set possible
      in if ''default'' \<in> set styles
         then Inr (''default'' # remove1 ''default'' styles)
         else Inl ValueError_remove)"

definition effective_styles :: "string list option \<Rightarrow> string set \<Rightarrow> error + string list" where
  "effective_styles styles possible =
     (case styles of None \<Rightarrow> default_styles possible | Some given \<Rightarrow> Inr given)"

text \<open>Lines 88-89.\<close>

definition missing_languages :: "(string \<times> string) list \<Rightarrow> string set \<Rightarrow> string set" where
  "missing_languages languages possible = set (map fst languages) - possible"

definition missing_styles :: "string list \<Rightarrow> string set \<Rightarrow> string set" where
  "missing_styles styles possible = set styles - possible"

text \<open>Lines 96-110: the script tags and the template filled in.\<close>

definition scripts :: "string \<Rightarrow> string \<Rightarrow> string \<Rightarrow> (string \<times> string \<times> string) list" where
  "scripts jquery_version highlight_version line_numbers_version =
     [(''jquery'', jquery_version, ''jquery.min.js''),
      (''highlight.js'', highlight_version, ''highlight.min.js''),
      (''highlightjs-line-numbers.js'', line_numbers_version, ''highlightjs-line-numbers.min.js'')]"

definition assemble :: "string \<Rightarrow> string \<Rightarrow> string \<Rightarrow> string list \<Rightarrow> error + string" where
  "assemble jquery_version highlight_version line_numbers_version styles =
     substitute MAGIC_HTML
       [''css'' \<mapsto> MINIFIED_CSS,
        ''js'' \<mapsto> MINIFIED_JS,
        ''styles'' \<mapsto> json_dumps styles,
        ''scripts'' \<mapsto> join ''\<newline>    ''
           (map (\<lambda>(lib, v, file). create_script_tag lib v file)
              (scripts jquery_version highlight_version line_numbers_version)),
        ''highlight_version'' \<mapsto> highlight_version]"

text \<open>Lines 113-123: the single-quote check on the assembled HTML, then the
  minification, then the size check on the minified HTML.\<close>

definition guard :: "externals \<Rightarrow> string \<Rightarrow> error + string" where
  "guard E html =
     (if CHR 0x27 \<in> set html then Inl ValueError_single_quotes
      else let html' = minify E html; new_size = length html'
           in if new_size > 4096 - 20 then Inl ValueError_too_long else Inr html')"

text \<open>Lines 125-126: the generator of \<open>location\<close> lines. \<open>routed\<close> is the iteration
  \<open>for language, regex in languages.items() if language not in missing_languages\<close>.\<close>

definition location_line :: "string \<Rightarrow> string \<Rightarrow> string" where
  \<open>location_line regex language =
     ''location ~* '' @ regex @ '' { if ($arg_raw) {break;} set $lang '' @ language @
     ''; try_files @highlight @highlight; }''\<close>

definition routed :: "(string \<times> string) list \<Rightarrow> string set \<Rightarrow> (string \<times> string) list" where
  "routed languages missing = filter (\<lambda>(language, regex). language \<notin> missing) languages"

definition location_gen :: "(string \<times> string) list \<Rightarrow> string set \<Rightarrow> string list" where
  "location_gen languages missing =
     map (\<lambda>(language, regex). location_line regex language) (routed languages missing)"

text \<open>Lines 129-148: the lines of the snippet, before \<open>filter(None, ...)\<close> and the join.\<close>

definition item :: "string \<times> string \<Rightarrow> string" where
  "item = (\<lambda>(k, v). k @ '': '' @ v)"

definition header :: "externals \<Rightarrow> (string \<times> string) list \<Rightarrow> string list \<Rightarrow> string set \<Rightarrow> string set \<Rightarrow> string list" where
  "header E languages styles missing_l missing_s =
     [''# NginxSourceViewer'',
      ''# -----------------'',
      ''# Requested languages: '' @ join '', '' (map item languages),
      ''# Requested styles: '' @ join '', '' styles,
      ''# Missing languages: '' @
         (if missing_l \<noteq> {}
          then join '', '' (map item (filter (\<lambda>(k, v). k \<in> missing_l) languages))
          else ''None''),
      ''# Missing styles: '' @
         (if missing_s \<noteq> {} then join '', '' (set_iter E missing_s) else ''None'')]"

definition handler :: "string \<Rightarrow> string list" where
  \<open>handler html =
     [''location @highlight {'',
      ''    if (!-f $request_filename) {'',
      ''        return 404;'',
      ''    }'',
      ''    charset UTF-8;'',
      ''    override_charset on;'',
      ''    source_charset UTF-8;'',
      ''    default_type text/html;'',
      ''    add_header Content-Type text/html;'',
      ''    return 200 '' @ [CHR 0x27] @ html @ [CHR 0x27] @ '';'',
      ''}'']\<close>

definition config_lines :: "externals \<Rightarrow> (string \<times> string) list \<Rightarrow> string list \<Rightarrow> string set \<Rightarrow> string set \<Rightarrow> string \<Rightarrow> string list" where
  "config_lines E languages styles missing_l missing_s html =
     header E languages styles missing_l missing_s @
     location_gen languages missing_l @
     handler html"

definition emit :: "string list \<Rightarrow> string" where
  "emit lines = join ''\<newline>'' (filter (\<lambda>l. l \<noteq> []) lines)"

text \<open>The whole of \<open>run\<close>. \<open>styles = None\<close> is the omitted argument.\<close>

definition run :: "externals \<Rightarrow> (string \<times> string) list \<Rightarrow> string list option \<Rightarrow> error + string" where
  "run E languages styles =
     (case fetch E of
        Inl e \<Rightarrow> Inl e
      | Inr ((jquery_version, jquery_files),
             (highlight_version, highlight_files),
             (line_numbers_version, line_numbers_files)) \<Rightarrow>
     (case effective_styles styles (possible_styles highlight_files) of
        Inl e \<Rightarrow> Inl e
      | Inr styles' \<Rightarrow>
     (case assemble jquery_version highlight_version line_numbers_version styles' of
        Inl e \<Rightarrow> Inl e
      | Inr html \<Rightarrow>
     (case guard E html of
        Inl e \<Rightarrow> Inl e
      | Inr html' \<Rightarrow>
          Inr (emit (config_lines E languages styles'
                 (missing_languages languages (possible_languages highlight_files))
                 (missing_styles styles' (possible_styles highlight_files))
                 html'))))))"

subsection \<open>Fixtures\<close>

text \<open>
  Catalog answers used to run the model on concrete inputs: a catalog with two languages
  and three styles, and the same catalog without the style \<open>default\<close>. The minifier of
  the fixtures returns its input unchanged, and sets are iterated in sorted order.
\<close>

definition cdn_fixture :: "string \<Rightarrow> error + string \<times> string list" where
  "cdn_fixture library =
     (if library = ''jquery'' then Inr (''3.4.1'', [''jquery.min.js''])
      else if library = ''highlight.js''
        then Inr (''9.15.6'',
               [''highlight.min.js'', ''languages/cpp.min.js'', ''languages/python.min.js'',
                ''styles/idea.min.css'', ''styles/default.min.css'', ''styles/dark.min.css''])
      else if library = ''highlightjs-line-numbers.js''
        then Inr (''2.7.0'', [''highlightjs-line-numbers.min.js''])
      else Inl CatalogError)"

definition fixture :: externals where
  "fixture = \<lparr> get_cdn_files = cdn_fixture, minify = (\<lambda>html. html),
               set_iter = sorted_list_of_set \<rparr>"

definition cdn_no_default :: "string \<Rightarrow> error + string \<times> string list" where
  "cdn_no_default library =
     (if library = ''jquery'' then Inr (''3.4.1'', [''jquery.min.js''])
      else if library = ''highlight.js''
        then Inr (''9.15.6'',
               [''highlight.min.js'', ''languages/cpp.min.js'', ''languages/python.min.js'',
                ''styles/idea.min.css'', ''styles/dark.min.css''])
      else if library = ''highlightjs-line-numbers.js''
        then Inr (''2.7.0'', [''highlightjs-line-numbers.min.js''])
      else Inl CatalogError)"

definition fixture_no_default :: externals where
  "fixture_no_default = \<lparr> get_cdn_files = cdn_no_default, minify = (\<lambda>html. html),
                          set_iter = sorted_list_of_set \<rparr>"

text \<open>The first fixture with the other iteration order of a set: sorted, then reversed.\<close>

definition fixture_rev :: externals where
  "fixture_rev = \<lparr> get_cdn_files = cdn_fixture, minify = (\<lambda>html. html),
                   set_iter = (\<lambda>s. rev (sorted_list_of_set s)) \<rparr>"



section \<open>Properties\<close>

subsection \<open>Auxiliary facts: the parts of \<open>run\<close> and the fixtures\<close>

lemma assemble_eq:
  "assemble jv hv lv st =
     Inr (MAGIC_HTML_0 @ MINIFIED_CSS @ MAGIC_HTML_1 @
          join ''\<newline>    ''
            (map (\<lambda>(lib, v, file). create_script_tag lib v file) (scripts jv hv lv)) @
          MAGIC_HTML_2 @ hv @ MAGIC_HTML_3 @ json_dumps st @ MAGIC_HTML_4 @
          MINIFIED_JS @ MAGIC_HTML_5)"
  by (simp add: assemble_def MAGIC_HTML_def)

lemma guard_Inr_iff:
  "guard E html = Inr d \<longleftrightarrow>
     CHR 0x27 \<notin> set html \<and> length (minify E html) \<le> 4076 \<and> d = minify E html"
  by (auto simp add: guard_def Let_def)

lemma run_unfold:
  assumes "fetch E = Inr ((jv, jf), (hv, hf), (lv, lf))"
      and "effective_styles styles (possible_styles hf) = Inr st"
      and "assemble jv hv lv st = Inr html"
  shows "run E languages styles =
     (case guard E html of
        Inl e \<Rightarrow> Inl e
      | Inr html' \<Rightarrow> Inr (emit (config_lines E languages st
           (missing_languages languages (possible_languages hf))
           (missing_styles st (possible_styles hf)) html')))"
  using assms by (simp add: run_def)

lemma run_InrD:
  assumes "run E languages styles = Inr out"
      and "fetch E = Inr ((jv, jf), (hv, hf), (lv, lf))"
  shows "\<exists>st html. effective_styles styles (possible_styles hf) = Inr st \<and>
           assemble jv hv lv st = Inr html \<and>
           CHR 0x27 \<notin> set html \<and> length (minify E html) \<le> 4076 \<and>
           out = emit (config_lines E languages st
                   (missing_languages languages (possible_languages hf))
                   (missing_styles st (possible_styles hf)) (minify E html))"
proof -
  from assms obtain st where st: "effective_styles styles (possible_styles hf) = Inr st"
    by (auto simp add: run_def split: sum.splits)
  obtain html where html: "assemble jv hv lv st = Inr html"
    by (simp add: assemble_eq)
  from assms(1) obtain d where d: "guard E html = Inr d"
    and out: "out = emit (config_lines E languages st
                   (missing_languages languages (possible_languages hf))
                   (missing_styles st (possible_styles hf)) d)"
    by (auto simp add: run_unfold [OF assms(2) st html] split: sum.splits)
  from d have "CHR 0x27 \<notin> set html" "length (minify E html) \<le> 4076" "d = minify E html"
    by (simp_all add: guard_Inr_iff)
  with st html out show ?thesis by blast
qed

lemma location_line_nonempty: "location_line regex language \<noteq> []"
  by (simp add: location_line_def)

lemma filter_nonempty_config_lines:
  "filter (\<lambda>l. l \<noteq> []) (config_lines E languages st ml ms d) =
     config_lines E languages st ml ms d"
  by (auto simp add: config_lines_def header_def handler_def location_gen_def filter_id_conv
       location_line_nonempty split: prod.splits)

lemma emit_config_lines:
  "emit (config_lines E languages st ml ms d) =
     join ''\<newline>'' (config_lines E languages st ml ms d)"
  by (simp add: emit_def filter_nonempty_config_lines)

lemma routed_available:
  "routed languages (missing_languages languages possible) =
     filter (\<lambda>(language, regex). language \<in> possible) languages"
  unfolding routed_def missing_languages_def
  by (rule filter_cong) (auto simp add: rev_image_eqI)

lemma fetch_fixture:
  "fetch fixture =
     Inr ((''3.4.1'', [''jquery.min.js'']),
          (''9.15.6'',
             [''highlight.min.js'', ''languages/cpp.min.js'', ''languages/python.min.js'',
              ''styles/idea.min.css'', ''styles/default.min.css'', ''styles/dark.min.css'']),
          (''2.7.0'', [''highlightjs-line-numbers.min.js'']))"
  by (simp add: fetch_def fixture_def cdn_fixture_def)

lemma fetch_fixture_no_default:
  "fetch fixture_no_default =
     Inr ((''3.4.1'', [''jquery.min.js'']),
          (''9.15.6'',
             [''highlight.min.js'', ''languages/cpp.min.js'', ''languages/python.min.js'',
              ''styles/idea.min.css'', ''styles/dark.min.css'']),
          (''2.7.0'', [''highlightjs-line-numbers.min.js'']))"
  by (simp add: fetch_def fixture_no_default_def cdn_no_default_def)

lemma possible_styles_no_default:
  "possible_styles [''highlight.min.js'', ''languages/cpp.min.js'', ''languages/python.min.js'',
              ''styles/idea.min.css'', ''styles/dark.min.css''] = {''idea'', ''dark''}"
  by (simp add: possible_styles_def startswith_def slice_def)

text \<open>The fixed texts of the document: their lengths, and no single quote in them.\<close>

lemma length_MAGIC_HTML_0: "length MAGIC_HTML_0 = 230" by (simp add: MAGIC_HTML_0_def)

lemma length_MAGIC_HTML_1: "length MAGIC_HTML_1 = 65" by (simp add: MAGIC_HTML_1_def)

lemma length_MAGIC_HTML_2: "length MAGIC_HTML_2 = 78" by (simp add: MAGIC_HTML_2_def)

lemma length_MAGIC_HTML_3: "length MAGIC_HTML_3 = 60" by (simp add: MAGIC_HTML_3_def)

lemma length_MAGIC_HTML_4: "length MAGIC_HTML_4 = 1" by (simp add: MAGIC_HTML_4_def)

lemma length_MAGIC_HTML_5: "length MAGIC_HTML_5 = 641" by (simp add: MAGIC_HTML_5_def)

lemma length_MINIFIED_CSS: "length MINIFIED_CSS = 312" by (simp add: MINIFIED_CSS_def)

lemma length_MINIFIED_JS: "length MINIFIED_JS = 980" by (simp add: MINIFIED_JS_def)

lemmas length_pieces =
  length_MAGIC_HTML_0 length_MAGIC_HTML_1 length_MAGIC_HTML_2 length_MAGIC_HTML_3
  length_MAGIC_HTML_4 length_MAGIC_HTML_5 length_MINIFIED_CSS length_MINIFIED_JS

lemma quote_MAGIC_HTML_0: "CHR 0x27 \<notin> set MAGIC_HTML_0" by (simp add: MAGIC_HTML_0_def)

lemma quote_MAGIC_HTML_1: "CHR 0x27 \<notin> set MAGIC_HTML_1" by (simp add: MAGIC_HTML_1_def)

lemma quote_MAGIC_HTML_2: "CHR 0x27 \<notin> set MAGIC_HTML_2" by (simp add: MAGIC_HTML_2_def)

lemma quote_MAGIC_HTML_3: "CHR 0x27 \<notin> set MAGIC_HTML_3" by (simp add: MAGIC_HTML_3_def)

lemma quote_MAGIC_HTML_4: "CHR 0x27 \<notin> set MAGIC_HTML_4" by (simp add: MAGIC_HTML_4_def)

lemma quote_MAGIC_HTML_5: "CHR 0x27 \<notin> set MAGIC_HTML_5" by (simp add: MAGIC_HTML_5_def)

lemma quote_MINIFIED_CSS: "CHR 0x27 \<notin> set MINIFIED_CSS" by (simp add: MINIFIED_CSS_def)

lemma quote_MINIFIED_JS: "CHR 0x27 \<notin> set MINIFIED_JS" by (simp add: MINIFIED_JS_def)

lemmas quote_free_pieces =
  quote_MAGIC_HTML_0 quote_MAGIC_HTML_1 quote_MAGIC_HTML_2 quote_MAGIC_HTML_3
  quote_MAGIC_HTML_4 quote_MAGIC_HTML_5 quote_MINIFIED_CSS quote_MINIFIED_JS

lemma length_script_tags:
  "length (join ''\<newline>    ''
      (map (\<lambda>(lib, v, file). create_script_tag lib v file) (scripts jv hv lv))) =
   310 + length jv + length hv + length lv"
  by (simp add: scripts_def create_script_tag_def)

lemma quote_script_tags:
  "CHR 0x27 \<in> set (join ''\<newline>    ''
      (map (\<lambda>(lib, v, file). create_script_tag lib v file) (scripts jv hv lv))) \<longleftrightarrow>
   CHR 0x27 \<in> set jv \<union> set hv \<union> set lv"
  by (auto simp add: scripts_def create_script_tag_def)

lemma length_html:
  "assemble jv hv lv st = Inr html \<Longrightarrow>
     length html = 2677 + length jv + 2 * length hv + length lv + length (json_dumps st)"
  by (auto simp add: assemble_eq length_pieces length_script_tags)

lemma quote_html:
  "assemble jv hv lv st = Inr html \<Longrightarrow>
     CHR 0x27 \<in> set html \<longleftrightarrow>
     CHR 0x27 \<in> set jv \<union> set hv \<union> set lv \<union> set (json_dumps st)"
  by (auto simp add: assemble_eq quote_free_pieces quote_script_tags)

lemma json_dumps_default:
  "json_dumps [''default''] = [CHR ''['', CHR 0x22] @ ''default'' @ [CHR 0x22, CHR '']'']"
  by (simp add: json_dumps_def json_string_def json_escape_def)

lemma run_ok:
  assumes "fetch E = Inr ((jv, jf), (hv, hf), (lv, lf))"
      and "effective_styles styles (possible_styles hf) = Inr st"
      and "assemble jv hv lv st = Inr html"
      and "CHR 0x27 \<notin> set html"
      and "length (minify E html) \<le> 4076"
  shows "run E languages styles =
     Inr (emit (config_lines E languages st
           (missing_languages languages (possible_languages hf))
           (missing_styles st (possible_styles hf)) (minify E html)))"
proof -
  from assms(4,5) have "guard E html = Inr (minify E html)"
    by (simp add: guard_Inr_iff)
  then show ?thesis
    by (simp add: run_unfold [OF assms(1-3)])
qed

lemma minify_fixture: "minify fixture html = html"
  by (simp add: fixture_def)

lemma run_fixture_default:
  "\<not> isl (run fixture languages (Some [''default'']))"
proof -
  obtain html where html: "assemble ''3.4.1'' ''9.15.6'' ''2.7.0'' [''default''] = Inr html"
    by (simp add: assemble_eq)
  have st: "effective_styles (Some [''default''])
      (possible_styles [''highlight.min.js'', ''languages/cpp.min.js'', ''languages/python.min.js'',
              ''styles/idea.min.css'', ''styles/default.min.css'', ''styles/dark.min.css'']) = Inr [''default'']"
    by (simp add: effective_styles_def)
  have q: "CHR 0x27 \<notin> set html"
    by (simp add: quote_html [OF html] json_dumps_default)
  have l: "length (minify fixture html) \<le> 4076"
    by (simp add: minify_fixture length_html [OF html] json_dumps_default)
  show ?thesis
    by (simp add: run_ok [OF fetch_fixture st html q l])
qed

lemma run_Inr_lines:
  assumes "fetch E = Inr ((jv, jf), (hv, hf), (lv, lf))"
      and "run E languages styles = Inr out"
  shows "\<exists>st html. effective_styles styles (possible_styles hf) = Inr st \<and>
           assemble jv hv lv st = Inr html \<and>
           out = join ''\<newline>''
             (header E languages st (missing_languages languages (possible_languages hf))
                (missing_styles st (possible_styles hf)) @
              map (\<lambda>(language, regex). location_line regex language)
                (filter (\<lambda>(language, regex). language \<in> possible_languages hf) languages) @
              handler (minify E html))"
proof -
  from run_InrD [OF assms(2,1)] obtain st html where
    st: "effective_styles styles (possible_styles hf) = Inr st" and
    html: "assemble jv hv lv st = Inr html" and
    out: "out = emit (config_lines E languages st
                   (missing_languages languages (possible_languages hf))
                   (missing_styles st (possible_styles hf)) (minify E html))"
    by blast
  from out have "out = join ''\<newline>'' (config_lines E languages st
                   (missing_languages languages (possible_languages hf))
                   (missing_styles st (possible_styles hf)) (minify E html))"
    by (simp only: emit_config_lines)
  then have "out = join ''\<newline>''
             (header E languages st (missing_languages languages (possible_languages hf))
                (missing_styles st (possible_styles hf)) @
              map (\<lambda>(language, regex). location_line regex language)
                (filter (\<lambda>(language, regex). language \<in> possible_languages hf) languages) @
              handler (minify E html))"
    by (simp add: config_lines_def location_gen_def routed_available)
  with st html show ?thesis by blast
qed


lemma possible_languages_fixture:
  "possible_languages [''highlight.min.js'', ''languages/cpp.min.js'', ''languages/python.min.js'',
              ''styles/idea.min.css'', ''styles/default.min.css'', ''styles/dark.min.css''] =
     {''cpp'', ''python''}"
  by (simp add: possible_languages_def startswith_def slice_def)

lemma possible_styles_fixture:
  "possible_styles [''highlight.min.js'', ''languages/cpp.min.js'', ''languages/python.min.js'',
      ''styles/idea.min.css'', ''styles/default.min.css'', ''styles/dark.min.css''] =
     {''idea'', ''default'', ''dark''}"
  by (simp add: possible_styles_def startswith_def slice_def)

lemma sorted_fixture_styles:
  "sorted_list_of_set ({''idea'', ''default'', ''dark''} - {''default''}) = [''dark'', ''idea'']"
  by code_simp

text \<open>Style lists of one long name, to reach a given document size.\<close>

lemma concat_replicate_single: "concat (replicate n [c]) = replicate n c"
  by (induction n) simp_all

lemma json_dumps_replicate_a:
  "json_dumps [replicate n (CHR ''a'')] =
     [CHR ''['', CHR 0x22] @ replicate n (CHR ''a'') @ [CHR 0x22, CHR '']'']"
  by (simp add: json_dumps_def json_string_def json_escape_def concat_replicate_single)


lemma assemble_fixture:
  "assemble ''3.4.1'' ''9.15.6'' ''2.7.0'' st =
     Inr (projr (assemble ''3.4.1'' ''9.15.6'' ''2.7.0'' st))"
  by (simp add: assemble_eq)

lemma length_html_fixture:
  "length (projr (assemble ''3.4.1'' ''9.15.6'' ''2.7.0'' st)) = 2699 + length (json_dumps st)"
  using length_html [OF assemble_fixture, of st] by simp

lemma quote_html_fixture:
  "CHR 0x27 \<in> set (projr (assemble ''3.4.1'' ''9.15.6'' ''2.7.0'' st)) \<longleftrightarrow>
     CHR 0x27 \<in> set (json_dumps st)"
  using quote_html [OF assemble_fixture, of st] by simp

lemma effective_styles_Some: "effective_styles (Some st) possible = Inr st"
  by (simp add: effective_styles_def)

lemma run_Inl_iff:
  assumes "fetch E = Inr ((jv, jf), (hv, hf), (lv, lf))"
  shows "run E languages styles = Inl e \<longleftrightarrow>
     (case effective_styles styles (possible_styles hf) of
        Inl e' \<Rightarrow> e' = e
      | Inr st \<Rightarrow> guard E (projr (assemble jv hv lv st)) = Inl e)"
  using assms by (auto simp add: run_def assemble_eq split: sum.splits)

lemma header_lines:
  "header E languages st ml ms =
     [''# NginxSourceViewer'',
      ''# -----------------'',
      ''# Requested languages: '' @ join '', '' (map item languages),
      ''# Requested styles: '' @ join '', '' st,
      ''# Missing languages: '' @
         (if ml \<noteq> {}
          then join '', '' (map item (filter (\<lambda>(k, v). k \<in> ml) languages))
          else ''None'')] @
     [''# Missing styles: '' @
         (if ms \<noteq> {} then join '', '' (set_iter E ms) else ''None'')]"
  by (simp add: header_def)

lemma possible_languages_fixture_no_default:
  "possible_languages [''highlight.min.js'', ''languages/cpp.min.js'', ''languages/python.min.js'',
              ''styles/idea.min.css'', ''styles/dark.min.css''] =
     {''cpp'', ''python''}"
  by (simp add: possible_languages_def startswith_def slice_def)

lemma minify_fixture_no_default: "minify fixture_no_default = minify fixture"
  by (simp add: fixture_no_default_def fixture_def)

lemma run_fixture_no_default_default:
  "\<not> isl (run fixture_no_default languages (Some [''default'']))"
proof -
  have q: "CHR 0x27 \<notin> set (projr (assemble ''3.4.1'' ''9.15.6'' ''2.7.0'' [''default'']))"
    by (simp add: quote_html_fixture json_dumps_default)
  have l: "length (minify fixture_no_default
      (projr (assemble ''3.4.1'' ''9.15.6'' ''2.7.0'' [''default'']))) \<le> 4076"
    by (simp add: minify_fixture_no_default minify_fixture length_html_fixture json_dumps_default)
  show ?thesis
    by (simp add: run_ok [OF fetch_fixture_no_default effective_styles_Some assemble_fixture q l])
qed

lemma guard_cong: "minify E' = minify E \<Longrightarrow> guard E' html = guard E html"
  by (simp add: guard_def)

lemma fetch_fixture_rev:
  "fetch fixture_rev =
     Inr ((''3.4.1'', [''jquery.min.js'']),
          (''9.15.6'',
             [''highlight.min.js'', ''languages/cpp.min.js'', ''languages/python.min.js'',
              ''styles/idea.min.css'', ''styles/default.min.css'', ''styles/dark.min.css'']),
          (''2.7.0'', [''highlightjs-line-numbers.min.js'']))"
  by (simp add: fetch_def fixture_rev_def cdn_fixture_def)

lemma minify_fixture_rev: "minify fixture_rev html = html"
  by (simp add: fixture_rev_def)

lemma json_dumps_three:
  "json_dumps [''default'', ''yyy'', ''zzz''] =
     [CHR ''['', CHR 0x22] @ ''default'' @ [CHR 0x22, CHR '','', CHR 0x22] @ ''yyy'' @
     [CHR 0x22, CHR '','', CHR 0x22] @ ''zzz'' @ [CHR 0x22, CHR '']'']"
  by (simp add: json_dumps_def json_string_def json_escape_def)

lemma missing_styles_three:
  "missing_styles [''default'', ''yyy'', ''zzz'']
     (possible_styles [''highlight.min.js'', ''languages/cpp.min.js'', ''languages/python.min.js'',
        ''styles/idea.min.css'', ''styles/default.min.css'', ''styles/dark.min.css'']) =
   {''yyy'', ''zzz''}"
  by (auto simp add: missing_styles_def possible_styles_fixture)

lemma sorted_yyy_zzz: "sorted_list_of_set {''yyy'', ''zzz''} = [''yyy'', ''zzz'']"
  by code_simp


subsection \<open>C1: which languages get a routing rule\<close>



subsection \<open>C2: the size check\<close>

text \<open>
  C2, as the code has it. The minified document embedded in the output has length at most
  \<open>4096 - 20 = 4076\<close>. For every input whose assembled document has no single quote and
  whose minified document is longer than 4076, \<open>run\<close> raises the size error and returns no
  output; a minified document of length 4076 or less passes the size check.
\<close>

theorem size_check:
  assumes "fetch E = Inr ((jv, jf), (hv, hf), (lv, lf))"
      and "effective_styles styles (possible_styles hf) = Inr st"
      and "assemble jv hv lv st = Inr html"
  shows "(run E languages styles = Inr out \<longrightarrow>
            length (minify E html) \<le> 4096 - 20 \<and>
            (\<exists>lines. out = join ''\<newline>'' (lines @ handler (minify E html)))) \<and>
         (CHR 0x27 \<notin> set html \<and> 4096 - 20 < length (minify E html) \<longrightarrow>
            run E languages styles = Inl ValueError_too_long) \<and>
         (CHR 0x27 \<notin> set html \<and> length (minify E html) \<le> 4096 - 20 \<longrightarrow>
            \<not> isl (run E languages styles))"
proof -
  have a: "length (minify E html) \<le> 4096 - 20 \<and>
           (\<exists>lines. out = join ''\<newline>'' (lines @ handler (minify E html)))"
    if "run E languages styles = Inr out"
  proof -
    from run_Inr_lines [OF assms(1) that] assms(2,3) obtain hdr rules where
      "out = join ''\<newline>'' (hdr @ rules @ handler (minify E html))"
      by auto
    then have "\<exists>lines. out = join ''\<newline>'' (lines @ handler (minify E html))"
      by (metis append.assoc)
    moreover from run_InrD [OF that assms(1)] assms(2,3)
    have "length (minify E html) \<le> 4096 - 20" by auto
    ultimately show ?thesis by blast
  qed
  have b: "run E languages styles = Inl ValueError_too_long"
    if "CHR 0x27 \<notin> set html" "4096 - 20 < length (minify E html)"
    using that by (simp add: run_unfold [OF assms] guard_def Let_def)
  have c: "\<not> isl (run E languages styles)"
    if "CHR 0x27 \<notin> set html" "length (minify E html) \<le> 4096 - 20"
    using that by (simp add: run_unfold [OF assms] guard_def Let_def)
  from a b c show ?thesis by blast
qed

theorem size_check_witness:
  "run fixture [] (Some [replicate 1374 (CHR ''a'')]) = Inl ValueError_too_long \<and>
   4096 - 20 < length (minify fixture
     (projr (assemble ''3.4.1'' ''9.15.6'' ''2.7.0'' [replicate 1374 (CHR ''a'')]))) \<and>
   \<not> isl (run fixture [] (Some [''default'']))"
proof -
  have q1: "CHR 0x27 \<notin> set (projr (assemble ''3.4.1'' ''9.15.6'' ''2.7.0''
      [replicate 1374 (CHR ''a'')]))"
    by (simp add: quote_html_fixture json_dumps_replicate_a)
  have l1: "4096 - 20 < length (minify fixture
     (projr (assemble ''3.4.1'' ''9.15.6'' ''2.7.0'' [replicate 1374 (CHR ''a'')])))"
    by (simp add: minify_fixture length_html_fixture json_dumps_replicate_a)
  have q2: "CHR 0x27 \<notin> set (projr (assemble ''3.4.1'' ''9.15.6'' ''2.7.0'' [''default'']))"
    by (simp add: quote_html_fixture json_dumps_default)
  have l2: "length (minify fixture
     (projr (assemble ''3.4.1'' ''9.15.6'' ''2.7.0'' [''default'']))) \<le> 4096 - 20"
    by (simp add: minify_fixture length_html_fixture json_dumps_default)
  from size_check [where st = "[replicate 1374 (CHR ''a'')]" and languages = "[]" and out = "[]",
      OF fetch_fixture effective_styles_Some assemble_fixture] q1 l1
  have "run fixture [] (Some [replicate 1374 (CHR ''a'')]) = Inl ValueError_too_long"
    by blast
  moreover from size_check [where st = "[''default'']" and languages = "[]" and out = "[]",
      OF fetch_fixture effective_styles_Some assemble_fixture] q2 l2
  have "\<not> isl (run fixture [] (Some [''default'']))"
    by blast
  ultimately show ?thesis using l1 by blast
qed

text \<open>
  The claim as the spec has it fails at the boundary: a minified document of length
  exactly 4076 is accepted and embedded.
\<close>

theorem length_4076_accepted:
  "length (minify fixture
     (projr (assemble ''3.4.1'' ''9.15.6'' ''2.7.0'' [replicate 1373 (CHR ''a'')]))) = 4076 \<and>
   run fixture [] (Some [replicate 1373 (CHR ''a'')]) =
     Inr (emit (config_lines fixture [] [replicate 1373 (CHR ''a'')]
            (missing_languages []
               (possible_languages [''highlight.min.js'', ''languages/cpp.min.js'',
                  ''languages/python.min.js'', ''styles/idea.min.css'',
                  ''styles/default.min.css'', ''styles/dark.min.css'']))
            (missing_styles [replicate 1373 (CHR ''a'')]
               (possible_styles [''highlight.min.js'', ''languages/cpp.min.js'',
                  ''languages/python.min.js'', ''styles/idea.min.css'',
                  ''styles/default.min.css'', ''styles/dark.min.css'']))
            (minify fixture
               (projr (assemble ''3.4.1'' ''9.15.6'' ''2.7.0'' [replicate 1373 (CHR ''a'')]))))) \<and>
   run fixture [] (Some [replicate 1373 (CHR ''a'')]) \<noteq> Inl ValueError_too_long"
proof -
  have q: "CHR 0x27 \<notin> set (projr (assemble ''3.4.1'' ''9.15.6'' ''2.7.0''
      [replicate 1373 (CHR ''a'')]))"
    by (simp add: quote_html_fixture json_dumps_replicate_a)
  have l: "length (minify fixture
     (projr (assemble ''3.4.1'' ''9.15.6'' ''2.7.0'' [replicate 1373 (CHR ''a'')]))) = 4076"
    by (simp add: minify_fixture length_html_fixture json_dumps_replicate_a)
  then have l': "length (minify fixture
     (projr (assemble ''3.4.1'' ''9.15.6'' ''2.7.0'' [replicate 1373 (CHR ''a'')]))) \<le> 4076"
    by simp
  from run_ok [OF fetch_fixture effective_styles_Some assemble_fixture q l'] l
  show ?thesis by simp
qed

subsection \<open>C3: the single-quote check\<close>




subsection \<open>C4: the style list when the caller gives none\<close>

text \<open>
  C4, as the code has it. When the style list is omitted and \<open>default\<close> is a possible style
  of the catalog, the effective style list is the sorted list of all possible styles with
  \<open>default\<close> moved to position 0: \<open>default\<close> first, then the other possible styles in
  lexicographic order; \<open>run\<close> behaves as if the caller had given that list.
\<close>

theorem default_style_list:
  assumes "fetch E = Inr ((jv, jf), (hv, hf), (lv, lf))"
      and "''default'' \<in> possible_styles hf"
  shows "effective_styles None (possible_styles hf) =
           Inr (''default'' # remove1 ''default'' (sorted_list_of_set (possible_styles hf))) \<and>
         remove1 ''default'' (sorted_list_of_set (possible_styles hf)) =
           sorted_list_of_set (possible_styles hf - {''default''}) \<and>
         run E languages None =
           run E languages
             (Some (''default'' # sorted_list_of_set (possible_styles hf - {''default''})))"
proof -
  have fin: "finite (possible_styles hf)" by (simp add: possible_styles_def)
  from fin assms(2) have eff: "effective_styles None (possible_styles hf) =
      Inr (''default'' # remove1 ''default'' (sorted_list_of_set (possible_styles hf)))"
    by (simp add: effective_styles_def default_styles_def)
  from fin have rem: "remove1 ''default'' (sorted_list_of_set (possible_styles hf)) =
      sorted_list_of_set (possible_styles hf - {''default''})"
    by (simp add: sorted_list_of_set.sorted_key_list_of_set_remove)
  have "run E languages None =
      run E languages (Some (''default'' # remove1 ''default''
         (sorted_list_of_set (possible_styles hf))))"
    using assms(1) eff by (simp add: run_def effective_styles_def)
  with eff rem show ?thesis by simp
qed

theorem default_style_list_witness:
  "''default'' \<in> possible_styles [''highlight.min.js'', ''languages/cpp.min.js'',
      ''languages/python.min.js'', ''styles/idea.min.css'', ''styles/default.min.css'',
      ''styles/dark.min.css''] \<and>
   effective_styles None (possible_styles [''highlight.min.js'', ''languages/cpp.min.js'',
      ''languages/python.min.js'', ''styles/idea.min.css'', ''styles/default.min.css'',
      ''styles/dark.min.css'']) = Inr [''default'', ''dark'', ''idea''] \<and>
   run fixture [(''python'', ''[.](py)$'')] None =
     run fixture [(''python'', ''[.](py)$'')] (Some [''default'', ''dark'', ''idea''])"
proof -
  have d: "''default'' \<in> possible_styles [''highlight.min.js'', ''languages/cpp.min.js'',
      ''languages/python.min.js'', ''styles/idea.min.css'', ''styles/default.min.css'',
      ''styles/dark.min.css'']"
    by (simp add: possible_styles_fixture)
  from default_style_list [OF fetch_fixture d] d show ?thesis
    by (simp add: possible_styles_fixture sorted_fixture_styles)
qed

text \<open>
  The claim as the spec has it fails where \<open>default\<close> is not a possible style: the
  normalisation does not succeed there.
\<close>

theorem default_missing_no_style_list:
  "''default'' \<notin> possible_styles [''highlight.min.js'', ''languages/cpp.min.js'',
      ''languages/python.min.js'', ''styles/idea.min.css'', ''styles/dark.min.css''] \<and>
   effective_styles None (possible_styles [''highlight.min.js'', ''languages/cpp.min.js'',
      ''languages/python.min.js'', ''styles/idea.min.css'', ''styles/dark.min.css'']) =
     Inl ValueError_remove \<and>
   run fixture_no_default [] None = Inl ValueError_remove"
proof -
  have "run fixture_no_default [] None = Inl ValueError_remove"
    using fetch_fixture_no_default
    by (simp add: run_def possible_styles_no_default effective_styles_def default_styles_def)
  then show ?thesis
    by (simp add: possible_styles_no_default effective_styles_def default_styles_def)
qed

subsection \<open>C5: the possible languages and styles of a file list\<close>

text \<open>
  For a path that has both the prefix and the suffix, the slices of lines 76 and 78 are the
  path with the two cut off, as the comments of lines 75 and 77 say.
\<close>

lemma matching_paths_stripped:
  "(l \<in> possible_languages files \<longleftrightarrow>
      (\<exists>x \<in> set files. startswith x ''languages/'' \<and> l = slice 10 7 x)) \<and>
   (s \<in> possible_styles files \<longleftrightarrow>
      (\<exists>x \<in> set files. startswith x ''styles/'' \<and> s = slice 7 8 x)) \<and>
   (\<forall>x \<in> set files. startswith x ''languages/'' \<and> endswith x ''.min.js'' \<longrightarrow>
      x = ''languages/'' @ slice 10 7 x @ ''.min.js'' \<and> slice 10 7 x \<in> possible_languages files) \<and>
   (\<forall>x \<in> set files. startswith x ''styles/'' \<and> endswith x ''.min.css'' \<longrightarrow>
      x = ''styles/'' @ slice 7 8 x @ ''.min.css'' \<and> slice 7 8 x \<in> possible_styles files)"
proof -
  have strip: "x = p @ drop a (take (length x - b) x) @ q"
    if p: "take a x = p" and q: "drop (length x - b) x = q" and le: "a + b \<le> length x"
    for x p q :: string and a b :: nat
  proof -
    have "x = take (length x - b) x @ drop (length x - b) x" by simp
    also have "take (length x - b) x =
        take a (take (length x - b) x) @ drop a (take (length x - b) x)"
      by (simp only: append_take_drop_id)
    also have "take a (take (length x - b) x) = take a x"
    proof -
      have "min a (length x - b) = a" using le by arith
      then show ?thesis by (simp only: take_take)
    qed
    finally show ?thesis using p q by simp
  qed
  have len: "length p + length q \<le> length x"
    if p: "take (length p) x = p" and ql: "length q \<le> length x"
      and q: "drop (length x - length q) x = q" and sep: "last p \<notin> set q" and ne: "p \<noteq> []"
    for x p q :: string
  proof (rule ccontr)
    assume "\<not> length p + length q \<le> length x"
    then have lt: "length x - length q < length p" using ql by arith
    have "length (take (length p) x) = length p" by (simp only: p)
    then have pl: "length p \<le> length x" by simp
    have pos: "0 < length p" using ne by simp
    define n where "n = length x - length q"
    define i where "i = length p - 1 - n"
    have ni: "n + i = length p - 1" using lt pos by (simp add: n_def i_def)
    have iq: "i < length q" using lt pos pl ql by (simp add: n_def i_def)
    have "q ! i = drop n x ! i" by (simp add: q n_def)
    also have "\<dots> = x ! (n + i)" by (rule nth_drop) (simp add: n_def)
    also have "\<dots> = take (length p) x ! (length p - 1)" using pos by (simp add: ni)
    also have "\<dots> = last p" using ne by (simp add: p last_conv_nth)
    finally have "last p = q ! i" by simp
    with iq have "last p \<in> set q" by simp
    with sep show False by simp
  qed
  have lang: "x = ''languages/'' @ slice 10 7 x @ ''.min.js''"
    if "startswith x ''languages/''" "endswith x ''.min.js''" for x
  proof -
    from that have a: "take (length ''languages/'') x = ''languages/''"
      and b: "length ''.min.js'' \<le> length x"
      and c: "drop (length x - length ''.min.js'') x = ''.min.js''"
      by (simp_all only: startswith_def endswith_def)
    have le0: "length ''languages/'' + length ''.min.js'' \<le> length x"
      by (rule len [OF a b c]) simp_all
    have n: "length ''languages/'' = 10" "length ''.min.js'' = 7" by simp_all
    from le0 have le: "10 + 7 \<le> length x" by (simp only: n)
    from a have a': "take 10 x = ''languages/''" by (simp only: n)
    from c have c': "drop (length x - 7) x = ''.min.js''" by (simp only: n)
    from strip [OF a' c' le] show ?thesis by (simp only: slice_def)
  qed
  have style: "x = ''styles/'' @ slice 7 8 x @ ''.min.css''"
    if "startswith x ''styles/''" "endswith x ''.min.css''" for x
  proof -
    from that have a: "take (length ''styles/'') x = ''styles/''"
      and b: "length ''.min.css'' \<le> length x"
      and c: "drop (length x - length ''.min.css'') x = ''.min.css''"
      by (simp_all only: startswith_def endswith_def)
    have le0: "length ''styles/'' + length ''.min.css'' \<le> length x"
      by (rule len [OF a b c]) simp_all
    have n: "length ''styles/'' = 7" "length ''.min.css'' = 8" by simp_all
    from le0 have le: "7 + 8 \<le> length x" by (simp only: n)
    from a have a': "take 7 x = ''styles/''" by (simp only: n)
    from c have c': "drop (length x - 8) x = ''.min.css''" by (simp only: n)
    from strip [OF a' c' le] show ?thesis by (simp only: slice_def)
  qed
  show ?thesis
    using lang style by (auto simp add: possible_languages_def possible_styles_def)
qed

text \<open>
  C5 does not hold of the code. The possible languages should be the paths with prefix
  \<open>languages/\<close> and suffix \<open>.min.js\<close>, with both cut off, and a path with the prefix and
  another suffix should contribute nothing; the same for the styles with \<open>styles/\<close> and
  \<open>.min.css\<close>. Lines 76 and 78 test the prefix only and cut the suffix by position, so a
  path with the prefix and another suffix loses its last 7 (8) characters, whatever they
  are, and what is left becomes an identifier: \<open>languages/python.js\<close> gives the possible
  language \<open>py\<close>, and \<open>styles/default.css\<close> the possible style \<open>def\<close>.
\<close>

theorem other_suffix_contributes:
  "startswith ''languages/python.js'' ''languages/'' \<and>
   \<not> endswith ''languages/python.js'' ''.min.js'' \<and>
   possible_languages [''languages/python.js''] = {''py''} \<and>
   startswith ''styles/default.css'' ''styles/'' \<and>
   \<not> endswith ''styles/default.css'' ''.min.css'' \<and>
   possible_styles [''styles/default.css''] = {''def''}"
  by (simp add: startswith_def endswith_def possible_languages_def possible_styles_def slice_def)

subsection \<open>C6: the output and the iteration order of a set\<close>

text \<open>
  C6 does not hold of the code. The \<open>Missing styles\<close> line joins the set \<open>missing_styles\<close>
  in the order the interpreter iterates over it (line 135), where the \<open>Missing languages\<close>
  line goes through the LanguageSpec in its own order (line 134) and the default style
  list is sorted (line 84). With two missing styles, the same catalog answer, LanguageSpec
  and style list give two different outputs under two iteration orders of the same set.
\<close>

theorem set_order_changes_output:
  "get_cdn_files fixture_rev = get_cdn_files fixture \<and>
   minify fixture_rev = minify fixture \<and>
   set (set_iter fixture_rev {''yyy'', ''zzz''}) = set (set_iter fixture {''yyy'', ''zzz''}) \<and>
   \<not> isl (run fixture [] (Some [''default'', ''yyy'', ''zzz''])) \<and>
   \<not> isl (run fixture_rev [] (Some [''default'', ''yyy'', ''zzz''])) \<and>
   run fixture [] (Some [''default'', ''yyy'', ''zzz'']) \<noteq>
   run fixture_rev [] (Some [''default'', ''yyy'', ''zzz''])"
proof -
  let ?S = "[''default'', ''yyy'', ''zzz'']"
  let ?hf = "[''highlight.min.js'', ''languages/cpp.min.js'', ''languages/python.min.js'',
        ''styles/idea.min.css'', ''styles/default.min.css'', ''styles/dark.min.css'']"
  define html where "html = projr (assemble ''3.4.1'' ''9.15.6'' ''2.7.0'' ?S)"
  have a: "assemble ''3.4.1'' ''9.15.6'' ''2.7.0'' ?S = Inr html"
    unfolding html_def by (rule assemble_fixture)
  have q: "CHR 0x27 \<notin> set html"
    unfolding html_def by (simp add: quote_html_fixture json_dumps_three)
  have len: "length html \<le> 4076"
    unfolding html_def by (simp add: length_html_fixture json_dumps_three)
  have l: "length (minify fixture html) \<le> 4076" "length (minify fixture_rev html) \<le> 4076"
    using len by (simp_all add: minify_fixture minify_fixture_rev)
  note fr = fetch_fixture_rev
  have r1: "run fixture [] (Some ?S) =
      Inr (join ''\<newline>'' (config_lines fixture [] ?S
        (missing_languages [] (possible_languages ?hf)) {''yyy'', ''zzz''} html))"
    by (simp only: run_ok [OF fetch_fixture effective_styles_Some a q l(1)]
          emit_config_lines missing_styles_three minify_fixture)
  have r2: "run fixture_rev [] (Some ?S) =
      Inr (join ''\<newline>'' (config_lines fixture_rev [] ?S
        (missing_languages [] (possible_languages ?hf)) {''yyy'', ''zzz''} html))"
    by (simp only: run_ok [OF fr effective_styles_Some a q l(2)]
          emit_config_lines missing_styles_three minify_fixture_rev)
  have i1: "set_iter fixture {''yyy'', ''zzz''} = [''yyy'', ''zzz'']"
    by (simp add: fixture_def sorted_yyy_zzz)
  have i2: "set_iter fixture_rev {''yyy'', ''zzz''} = [''zzz'', ''yyy'']"
    by (simp add: fixture_rev_def sorted_yyy_zzz)
  have ne: "run fixture [] (Some ?S) \<noteq> run fixture_rev [] (Some ?S)"
    unfolding r1 r2
    by (simp add: config_lines_def header_def handler_def location_gen_def routed_def i1 i2)
  have "get_cdn_files fixture_rev = get_cdn_files fixture" "minify fixture_rev = minify fixture"
    by (simp_all add: fixture_rev_def fixture_def)
  with ne r1 r2 i1 i2 show ?thesis by auto
qed

subsection \<open>C7: the order of the routing rules\<close>



subsection \<open>C8: a requested language that the catalog lacks\<close>

text \<open>
  C8. A requested language that is not a possible language is never the cause of an error:
  for a LanguageSpec whose only key \<open>k\<close> is not possible, \<open>run\<close> raises an error only where
  it raises the same error for every other LanguageSpec. The generator of \<open>location\<close> lines
  yields nothing for it, and where \<open>run\<close> returns for the empty LanguageSpec it returns for
  this one exactly the six comment lines followed by the handler block, with no \<open>location\<close>
  line, the missing-languages comment listing \<open>k\<close> with its pattern. When no requested
  language is missing, the missing-languages comment reads \<open>None\<close>.
\<close>

theorem missing_language_not_fatal:
  assumes "fetch E = Inr ((jv, jf), (hv, hf), (lv, lf))"
      and "k \<notin> possible_languages hf"
  shows "(run E [(k, r)] styles = Inl e \<longleftrightarrow> run E languages' styles = Inl e) \<and>
         location_gen [(k, r)] (missing_languages [(k, r)] (possible_languages hf)) = [] \<and>
         (\<forall>st html.
            effective_styles styles (possible_styles hf) = Inr st \<and>
            assemble jv hv lv st = Inr html \<and>
            run E [] styles = Inr out_empty \<longrightarrow>
            run E [(k, r)] styles =
              Inr (join ''\<newline>''
                ([''# NginxSourceViewer'',
                  ''# -----------------'',
                  ''# Requested languages: '' @ k @ '': '' @ r,
                  ''# Requested styles: '' @ join '', '' st,
                  ''# Missing languages: '' @ k @ '': '' @ r,
                  ''# Missing styles: '' @
                    (if missing_styles st (possible_styles hf) \<noteq> {}
                     then join '', '' (set_iter E (missing_styles st (possible_styles hf)))
                     else ''None'')] @
                 handler (minify E html)))) \<and>
         (\<forall>languages out.
            set (map fst languages) \<subseteq> possible_languages hf \<and>
            run E languages styles = Inr out \<longrightarrow>
            (\<exists>st html.
               effective_styles styles (possible_styles hf) = Inr st \<and>
               assemble jv hv lv st = Inr html \<and>
               out = join ''\<newline>''
                 ([''# NginxSourceViewer'',
                   ''# -----------------'',
                   ''# Requested languages: '' @ join '', '' (map item languages),
                   ''# Requested styles: '' @ join '', '' st,
                   ''# Missing languages: None'',
                   ''# Missing styles: '' @
                     (if missing_styles st (possible_styles hf) \<noteq> {}
                      then join '', '' (set_iter E (missing_styles st (possible_styles hf)))
                      else ''None'')] @
                  map (\<lambda>(language, regex). location_line regex language) languages @
                  handler (minify E html))))"
proof -
  have m: "missing_languages [(k, r)] (possible_languages hf) = {k}"
    using assms(2) by (auto simp add: missing_languages_def)
  have a: "run E [(k, r)] styles = Inl e \<longleftrightarrow> run E languages' styles = Inl e"
    by (simp only: run_Inl_iff [OF assms(1)])
  have g: "location_gen [(k, r)] (missing_languages [(k, r)] (possible_languages hf)) = []"
    by (simp add: m location_gen_def routed_def)
  have b: "run E [(k, r)] styles =
              Inr (join ''\<newline>''
                ([''# NginxSourceViewer'',
                  ''# -----------------'',
                  ''# Requested languages: '' @ k @ '': '' @ r,
                  ''# Requested styles: '' @ join '', '' st,
                  ''# Missing languages: '' @ k @ '': '' @ r,
                  ''# Missing styles: '' @
                    (if missing_styles st (possible_styles hf) \<noteq> {}
                     then join '', '' (set_iter E (missing_styles st (possible_styles hf)))
                     else ''None'')] @
                 handler (minify E html)))"
    if st: "effective_styles styles (possible_styles hf) = Inr st"
      and html: "assemble jv hv lv st = Inr html"
      and ret: "run E [] styles = Inr out_empty"
    for st html
  proof -
    from run_InrD [OF ret assms(1)] st html
    have q: "CHR 0x27 \<notin> set html" and l: "length (minify E html) \<le> 4076"
      by auto
    have "run E [(k, r)] styles =
        Inr (join ''\<newline>'' (config_lines E [(k, r)] st
           (missing_languages [(k, r)] (possible_languages hf))
           (missing_styles st (possible_styles hf)) (minify E html)))"
      by (simp only: run_ok [OF assms(1) st html q l] emit_config_lines)
    also have "config_lines E [(k, r)] st
           (missing_languages [(k, r)] (possible_languages hf))
           (missing_styles st (possible_styles hf)) (minify E html) =
        [''# NginxSourceViewer'',
         ''# -----------------'',
         ''# Requested languages: '' @ k @ '': '' @ r,
         ''# Requested styles: '' @ join '', '' st,
         ''# Missing languages: '' @ k @ '': '' @ r,
         ''# Missing styles: '' @
           (if missing_styles st (possible_styles hf) \<noteq> {}
            then join '', '' (set_iter E (missing_styles st (possible_styles hf)))
            else ''None'')] @ handler (minify E html)"
      by (simp add: m config_lines_def header_def location_gen_def routed_def item_def)
    finally show ?thesis .
  qed
  have c: "\<exists>st html.
               effective_styles styles (possible_styles hf) = Inr st \<and>
               assemble jv hv lv st = Inr html \<and>
               out = join ''\<newline>''
                 ([''# NginxSourceViewer'',
                   ''# -----------------'',
                   ''# Requested languages: '' @ join '', '' (map item languages),
                   ''# Requested styles: '' @ join '', '' st,
                   ''# Missing languages: None'',
                   ''# Missing styles: '' @
                     (if missing_styles st (possible_styles hf) \<noteq> {}
                      then join '', '' (set_iter E (missing_styles st (possible_styles hf)))
                      else ''None'')] @
                  map (\<lambda>(language, regex). location_line regex language) languages @
                  handler (minify E html))"
    if sub: "set (map fst languages) \<subseteq> possible_languages hf"
      and ret: "run E languages styles = Inr out"
    for languages out
  proof -
    from sub have m0: "missing_languages languages (possible_languages hf) = {}"
      by (auto simp add: missing_languages_def)
    from sub have all: "filter (\<lambda>(language, regex). language \<in> possible_languages hf) languages =
        languages"
      by (auto simp add: filter_id_conv)
    from run_Inr_lines [OF assms(1) ret] obtain st html where
      st: "effective_styles styles (possible_styles hf) = Inr st" and
      html: "assemble jv hv lv st = Inr html" and
      "out = join ''\<newline>''
             (header E languages st (missing_languages languages (possible_languages hf))
                (missing_styles st (possible_styles hf)) @
              map (\<lambda>(language, regex). location_line regex language)
                (filter (\<lambda>(language, regex). language \<in> possible_languages hf) languages) @
              handler (minify E html))"
      by blast
    then have "out = join ''\<newline>''
        ([''# NginxSourceViewer'', ''# -----------------'',
          ''# Requested languages: '' @ join '', '' (map item languages),
          ''# Requested styles: '' @ join '', '' st,
          ''# Missing languages: None'',
          ''# Missing styles: '' @
           (if missing_styles st (possible_styles hf) \<noteq> {}
            then join '', '' (set_iter E (missing_styles st (possible_styles hf)))
            else ''None'')] @
         map (\<lambda>(language, regex). location_line regex language) languages @
              handler (minify E html))"
      by (simp add: m0 all header_def)
    with st html show ?thesis by blast
  qed
  from a g b c show ?thesis by blast
qed

theorem missing_language_not_fatal_witness:
  "''cobol'' \<notin> possible_languages [''highlight.min.js'', ''languages/cpp.min.js'',
       ''languages/python.min.js'', ''styles/idea.min.css'', ''styles/default.min.css'',
       ''styles/dark.min.css''] \<and>
   run fixture [] (Some [''default'']) = Inr (projr (run fixture [] (Some [''default'']))) \<and>
   run fixture [(''cobol'', ''[.](cbl)$'')] (Some [''default'']) =
      Inr (join ''\<newline>''
        ([''# NginxSourceViewer'',
          ''# -----------------'',
          ''# Requested languages: cobol: [.](cbl)$'',
          ''# Requested styles: default'',
          ''# Missing languages: cobol: [.](cbl)$'',
          ''# Missing styles: None''] @
         handler (minify fixture (projr (assemble ''3.4.1'' ''9.15.6'' ''2.7.0'' [''default''])))))"
proof -
  have k: "''cobol'' \<notin> possible_languages [''highlight.min.js'', ''languages/cpp.min.js'',
       ''languages/python.min.js'', ''styles/idea.min.css'', ''styles/default.min.css'',
       ''styles/dark.min.css'']"
    by (simp add: possible_languages_fixture)
  have ok0: "run fixture [] (Some [''default'']) =
      Inr (projr (run fixture [] (Some [''default''])))"
    using run_fixture_default by simp
  have ms: "missing_styles [''default''] (possible_styles [''highlight.min.js'',
       ''languages/cpp.min.js'', ''languages/python.min.js'', ''styles/idea.min.css'',
       ''styles/default.min.css'', ''styles/dark.min.css'']) = {}"
    by (simp add: missing_styles_def possible_styles_fixture)
  note inst = missing_language_not_fatal [OF fetch_fixture k,
      where styles = "Some [''default'']" and r = "''[.](cbl)$''"
        and out_empty = "projr (run fixture [] (Some [''default'']))"]
  from inst effective_styles_Some [of "[''default'']"] assemble_fixture [of "[''default'']"] ok0
  have "run fixture [(''cobol'', ''[.](cbl)$'')] (Some [''default'']) =
      Inr (join ''\<newline>''
        ([''# NginxSourceViewer'',
          ''# -----------------'',
          ''# Requested languages: '' @ ''cobol'' @ '': '' @ ''[.](cbl)$'',
          ''# Requested styles: '' @ join '', '' [''default''],
          ''# Missing languages: '' @ ''cobol'' @ '': '' @ ''[.](cbl)$'',
          ''# Missing styles: '' @
            (if missing_styles [''default''] (possible_styles [''highlight.min.js'',
                  ''languages/cpp.min.js'', ''languages/python.min.js'', ''styles/idea.min.css'',
                  ''styles/default.min.css'', ''styles/dark.min.css'']) \<noteq> {}
             then join '', '' (set_iter fixture (missing_styles [''default'']
                (possible_styles [''highlight.min.js'',
                  ''languages/cpp.min.js'', ''languages/python.min.js'', ''styles/idea.min.css'',
                  ''styles/default.min.css'', ''styles/dark.min.css''])))
             else ''None'')] @
         handler (minify fixture (projr (assemble ''3.4.1'' ''9.15.6'' ''2.7.0'' [''default''])))))"
    by blast
  then have "run fixture [(''cobol'', ''[.](cbl)$'')] (Some [''default'']) =
      Inr (join ''\<newline>''
        ([''# NginxSourceViewer'',
          ''# -----------------'',
          ''# Requested languages: cobol: [.](cbl)$'',
          ''# Requested styles: default'',
          ''# Missing languages: cobol: [.](cbl)$'',
          ''# Missing styles: None''] @
         handler (minify fixture (projr (assemble ''3.4.1'' ''9.15.6'' ''2.7.0'' [''default''])))))"
    by (simp add: ms)
  with k ok0 show ?thesis by blast
qed

subsection \<open>C9: no style list and no \<open>default\<close> in the catalog\<close>

text \<open>
  C9. For every catalog answer whose possible styles do not contain \<open>default\<close>, \<open>run\<close>
  with the style list omitted raises the error of \<open>list.remove\<close> during the
  normalisation of the style list, whatever the languages are, and so returns no output.
\<close>

theorem omitted_styles_without_default_raise:
  assumes "fetch E = Inr ((jv, jf), (hv, hf), (lv, lf))"
      and "''default'' \<notin> possible_styles hf"
  shows "run E languages None = Inl ValueError_remove"
proof -
  have "finite (possible_styles hf)" by (simp add: possible_styles_def)
  with assms(2) have "effective_styles None (possible_styles hf) = Inl ValueError_remove"
    by (simp add: effective_styles_def default_styles_def)
  with assms(1) show ?thesis by (simp add: run_def)
qed

theorem omitted_styles_without_default_raise_witness:
  "fetch fixture_no_default =
     Inr ((''3.4.1'', [''jquery.min.js'']),
          (''9.15.6'',
             [''highlight.min.js'', ''languages/cpp.min.js'', ''languages/python.min.js'',
              ''styles/idea.min.css'', ''styles/dark.min.css'']),
          (''2.7.0'', [''highlightjs-line-numbers.min.js''])) \<and>
   ''default'' \<notin> possible_styles [''highlight.min.js'', ''languages/cpp.min.js'', ''languages/python.min.js'',
              ''styles/idea.min.css'', ''styles/dark.min.css''] \<and>
   run fixture_no_default [(''python'', ''[.](py)$'')] None = Inl ValueError_remove"
proof -
  have nd: "''default'' \<notin> possible_styles [''highlight.min.js'', ''languages/cpp.min.js'', ''languages/python.min.js'',
              ''styles/idea.min.css'', ''styles/dark.min.css'']"
    by (simp add: possible_styles_no_default)
  show ?thesis
    using omitted_styles_without_default_raise [OF fetch_fixture_no_default nd] nd
      fetch_fixture_no_default
    by simp
qed

subsection \<open>C10: missing styles change only their comment line\<close>

text \<open>
  C10. When the caller gives a style list, which of its styles the catalog lacks changes
  neither the document nor the routing rules. For two catalog answers with the same library
  versions and the same possible languages (and any file lists otherwise), \<open>run\<close> raises
  the same errors, and where it returns, the two outputs have the same first five comment
  lines, the same \<open>location\<close> lines and the same handler block with the same document;
  they differ at most in the text of the \<open>Missing styles\<close> comment line, which is
  \<open>None\<close> or the missing styles in the iteration order of their set. The document is
  assembled from the whole list given, in its order, as the JSON array after
  \<open>const STYLES=\<close>, and the \<open>Requested styles\<close> comment is that whole list joined in its
  order.
\<close>

theorem missing_styles_only_in_comment:
  assumes "fetch E = Inr ((jv, jf), (hv, hf), (lv, lf))"
      and "fetch E' = Inr ((jv, jf'), (hv, hf'), (lv, lf'))"
      and "minify E' = minify E"
      and "possible_languages hf' = possible_languages hf"
  shows "(run E languages (Some sl) = Inl e \<longleftrightarrow> run E' languages (Some sl) = Inl e) \<and>
         (run E languages (Some sl) = Inr out \<and> run E' languages (Some sl) = Inr out' \<longrightarrow>
           (\<exists>html.
              assemble jv hv lv sl = Inr html \<and>
              html = MAGIC_HTML_0 @ MINIFIED_CSS @ MAGIC_HTML_1 @
                join ''\<newline>    ''
                  (map (\<lambda>(lib, v, file). create_script_tag lib v file) (scripts jv hv lv)) @
                MAGIC_HTML_2 @ hv @ MAGIC_HTML_3 @ json_dumps sl @ MAGIC_HTML_4 @
                MINIFIED_JS @ MAGIC_HTML_5 \<and>
              out = join ''\<newline>''
                ([''# NginxSourceViewer'', ''# -----------------'',
                  ''# Requested languages: '' @ join '', '' (map item languages),
                  ''# Requested styles: '' @ join '', '' sl,
                  ''# Missing languages: '' @
                    (if missing_languages languages (possible_languages hf) \<noteq> {}
                     then join '', '' (map item (filter (\<lambda>(k, v).
                            k \<in> missing_languages languages (possible_languages hf)) languages))
                     else ''None'')] @
                 [''# Missing styles: '' @
                    (if missing_styles sl (possible_styles hf) \<noteq> {}
                     then join '', '' (set_iter E (missing_styles sl (possible_styles hf)))
                     else ''None'')] @
                 map (\<lambda>(language, regex). location_line regex language)
                   (filter (\<lambda>(language, regex). language \<in> possible_languages hf) languages) @
                 handler (minify E html)) \<and>
              out' = join ''\<newline>''
                ([''# NginxSourceViewer'', ''# -----------------'',
                  ''# Requested languages: '' @ join '', '' (map item languages),
                  ''# Requested styles: '' @ join '', '' sl,
                  ''# Missing languages: '' @
                    (if missing_languages languages (possible_languages hf) \<noteq> {}
                     then join '', '' (map item (filter (\<lambda>(k, v).
                            k \<in> missing_languages languages (possible_languages hf)) languages))
                     else ''None'')] @
                 [''# Missing styles: '' @
                    (if missing_styles sl (possible_styles hf') \<noteq> {}
                     then join '', '' (set_iter E' (missing_styles sl (possible_styles hf')))
                     else ''None'')] @
                 map (\<lambda>(language, regex). location_line regex language)
                   (filter (\<lambda>(language, regex). language \<in> possible_languages hf) languages) @
                 handler (minify E html))))"
proof -
  have a: "run E languages (Some sl) = Inl e \<longleftrightarrow> run E' languages (Some sl) = Inl e"
    by (simp add: run_Inl_iff [OF assms(1)] run_Inl_iff [OF assms(2)]
          effective_styles_Some guard_cong [OF assms(3)])
  let ?rules = "map (\<lambda>(language, regex). location_line regex language)
                (filter (\<lambda>(language, regex). language \<in> possible_languages hf) languages)"
  let ?five = "[''# NginxSourceViewer'', ''# -----------------'',
          ''# Requested languages: '' @ join '', '' (map item languages),
          ''# Requested styles: '' @ join '', '' sl,
          ''# Missing languages: '' @
            (if missing_languages languages (possible_languages hf) \<noteq> {}
             then join '', '' (map item (filter (\<lambda>(k, v).
                    k \<in> missing_languages languages (possible_languages hf)) languages))
             else ''None'')]"
  have b: "\<exists>html.
              assemble jv hv lv sl = Inr html \<and>
              html = MAGIC_HTML_0 @ MINIFIED_CSS @ MAGIC_HTML_1 @
                join ''\<newline>    ''
                  (map (\<lambda>(lib, v, file). create_script_tag lib v file) (scripts jv hv lv)) @
                MAGIC_HTML_2 @ hv @ MAGIC_HTML_3 @ json_dumps sl @ MAGIC_HTML_4 @
                MINIFIED_JS @ MAGIC_HTML_5 \<and>
              out = join ''\<newline>''
                (?five @
                 [''# Missing styles: '' @
                    (if missing_styles sl (possible_styles hf) \<noteq> {}
                     then join '', '' (set_iter E (missing_styles sl (possible_styles hf)))
                     else ''None'')] @ ?rules @ handler (minify E html)) \<and>
              out' = join ''\<newline>''
                (?five @
                 [''# Missing styles: '' @
                    (if missing_styles sl (possible_styles hf') \<noteq> {}
                     then join '', '' (set_iter E' (missing_styles sl (possible_styles hf')))
                     else ''None'')] @ ?rules @ handler (minify E html))"
    if r: "run E languages (Some sl) = Inr out" and r': "run E' languages (Some sl) = Inr out'"
  proof -
    obtain html where html: "assemble jv hv lv sl = Inr html"
      by (simp add: assemble_eq)
    then have shape: "html = MAGIC_HTML_0 @ MINIFIED_CSS @ MAGIC_HTML_1 @
          join ''\<newline>    ''
            (map (\<lambda>(lib, v, file). create_script_tag lib v file) (scripts jv hv lv)) @
          MAGIC_HTML_2 @ hv @ MAGIC_HTML_3 @ json_dumps sl @ MAGIC_HTML_4 @
          MINIFIED_JS @ MAGIC_HTML_5"
      by (simp add: assemble_eq)
    from run_Inr_lines [OF assms(1) r] html
    have "out = join ''\<newline>''
             (header E languages sl (missing_languages languages (possible_languages hf))
                (missing_styles sl (possible_styles hf)) @ ?rules @ handler (minify E html))"
      by (auto simp add: effective_styles_Some)
    then have o: "out = join ''\<newline>''
        (?five @
         [''# Missing styles: '' @
            (if missing_styles sl (possible_styles hf) \<noteq> {}
             then join '', '' (set_iter E (missing_styles sl (possible_styles hf)))
             else ''None'')] @ ?rules @ handler (minify E html))"
      by (simp only: header_lines append_assoc)
    from run_Inr_lines [OF assms(2) r'] html
    have "out' = join ''\<newline>''
             (header E' languages sl (missing_languages languages (possible_languages hf))
                (missing_styles sl (possible_styles hf')) @ ?rules @ handler (minify E html))"
      by (auto simp add: effective_styles_Some assms(3,4))
    then have o': "out' = join ''\<newline>''
        (?five @
         [''# Missing styles: '' @
            (if missing_styles sl (possible_styles hf') \<noteq> {}
             then join '', '' (set_iter E' (missing_styles sl (possible_styles hf')))
             else ''None'')] @ ?rules @ handler (minify E html))"
      by (simp only: header_lines append_assoc)
    from html shape o o' show ?thesis by blast
  qed
  from a b show ?thesis by blast
qed

theorem missing_styles_only_in_comment_witness:
  "minify fixture_no_default = minify fixture \<and>
   possible_languages [''highlight.min.js'', ''languages/cpp.min.js'', ''languages/python.min.js'',
       ''styles/idea.min.css'', ''styles/dark.min.css''] =
   possible_languages [''highlight.min.js'', ''languages/cpp.min.js'', ''languages/python.min.js'',
       ''styles/idea.min.css'', ''styles/default.min.css'', ''styles/dark.min.css''] \<and>
   run fixture [(''python'', ''[.](py)$'')] (Some [''default'']) =
     Inr (projr (run fixture [(''python'', ''[.](py)$'')] (Some [''default'']))) \<and>
   run fixture_no_default [(''python'', ''[.](py)$'')] (Some [''default'']) =
     Inr (projr (run fixture_no_default [(''python'', ''[.](py)$'')] (Some [''default'']))) \<and>
   (\<exists>html.
      assemble ''3.4.1'' ''9.15.6'' ''2.7.0'' [''default''] = Inr html \<and>
      projr (run fixture [(''python'', ''[.](py)$'')] (Some [''default''])) =
        join ''\<newline>''
          ([''# NginxSourceViewer'', ''# -----------------'',
            ''# Requested languages: python: [.](py)$'',
            ''# Requested styles: default'',
            ''# Missing languages: None''] @
           [''# Missing styles: None''] @
           [location_line ''[.](py)$'' ''python''] @ handler (minify fixture html)) \<and>
      projr (run fixture_no_default [(''python'', ''[.](py)$'')] (Some [''default''])) =
        join ''\<newline>''
          ([''# NginxSourceViewer'', ''# -----------------'',
            ''# Requested languages: python: [.](py)$'',
            ''# Requested styles: default'',
            ''# Missing languages: None''] @
           [''# Missing styles: default''] @
           [location_line ''[.](py)$'' ''python''] @ handler (minify fixture html)))"
proof -
  have p: "possible_languages [''highlight.min.js'', ''languages/cpp.min.js'',
       ''languages/python.min.js'', ''styles/idea.min.css'', ''styles/dark.min.css''] =
     possible_languages [''highlight.min.js'', ''languages/cpp.min.js'', ''languages/python.min.js'',
       ''styles/idea.min.css'', ''styles/default.min.css'', ''styles/dark.min.css'']"
    by (simp add: possible_languages_fixture possible_languages_fixture_no_default)
  have ok: "run fixture [(''python'', ''[.](py)$'')] (Some [''default'']) =
      Inr (projr (run fixture [(''python'', ''[.](py)$'')] (Some [''default''])))"
    using run_fixture_default by simp
  have ok': "run fixture_no_default [(''python'', ''[.](py)$'')] (Some [''default'']) =
      Inr (projr (run fixture_no_default [(''python'', ''[.](py)$'')] (Some [''default''])))"
    using run_fixture_no_default_default by simp
  have m: "missing_styles [''default''] (possible_styles [''highlight.min.js'',
       ''languages/cpp.min.js'', ''languages/python.min.js'', ''styles/idea.min.css'',
       ''styles/dark.min.css'']) = {''default''}"
     "missing_styles [''default''] (possible_styles [''highlight.min.js'', ''languages/cpp.min.js'',
       ''languages/python.min.js'', ''styles/idea.min.css'', ''styles/default.min.css'',
       ''styles/dark.min.css'']) = {}"
    by (simp_all add: missing_styles_def possible_styles_fixture possible_styles_no_default)
  have ml: "missing_languages [(''python'', ''[.](py)$'')] {''cpp'', ''python''} = {}"
    by (simp add: missing_languages_def)
  have it: "set_iter fixture_no_default {''default''} = [''default'']"
    by (simp add: fixture_no_default_def)
  let ?hf = "[''highlight.min.js'', ''languages/cpp.min.js'', ''languages/python.min.js'',
       ''styles/idea.min.css'', ''styles/default.min.css'', ''styles/dark.min.css'']"
  let ?hf' = "[''highlight.min.js'', ''languages/cpp.min.js'', ''languages/python.min.js'',
       ''styles/idea.min.css'', ''styles/dark.min.css'']"
  let ?L = "[(''python'', ''[.](py)$'')]"
  let ?five = "[''# NginxSourceViewer'', ''# -----------------'',
          ''# Requested languages: '' @ join '', '' (map item ?L),
          ''# Requested styles: '' @ join '', '' [''default''],
          ''# Missing languages: '' @
            (if missing_languages ?L (possible_languages ?hf) \<noteq> {}
             then join '', '' (map item (filter (\<lambda>(k, v).
                    k \<in> missing_languages ?L (possible_languages ?hf)) ?L))
             else ''None'')]"
  let ?rules = "map (\<lambda>(language, regex). location_line regex language)
                (filter (\<lambda>(language, regex). language \<in> possible_languages ?hf) ?L)"
  from missing_styles_only_in_comment [OF fetch_fixture fetch_fixture_no_default
      minify_fixture_no_default p] ok ok'
  obtain html where
    h: "assemble ''3.4.1'' ''9.15.6'' ''2.7.0'' [''default''] = Inr html" and
    o: "projr (run fixture ?L (Some [''default''])) =
        join ''\<newline>''
          (?five @
           [''# Missing styles: '' @
              (if missing_styles [''default''] (possible_styles ?hf) \<noteq> {}
               then join '', '' (set_iter fixture (missing_styles [''default'']
                      (possible_styles ?hf)))
               else ''None'')] @ ?rules @ handler (minify fixture html))" and
    o': "projr (run fixture_no_default ?L (Some [''default''])) =
        join ''\<newline>''
          (?five @
           [''# Missing styles: '' @
              (if missing_styles [''default''] (possible_styles ?hf') \<noteq> {}
               then join '', '' (set_iter fixture_no_default (missing_styles [''default'']
                      (possible_styles ?hf')))
               else ''None'')] @ ?rules @ handler (minify fixture html))"
    by blast
  from o have o2: "projr (run fixture ?L (Some [''default''])) =
        join ''\<newline>''
          ([''# NginxSourceViewer'', ''# -----------------'',
            ''# Requested languages: python: [.](py)$'',
            ''# Requested styles: default'',
            ''# Missing languages: None''] @
           [''# Missing styles: None''] @
           [location_line ''[.](py)$'' ''python''] @ handler (minify fixture html))"
    by (simp add: m ml it possible_languages_fixture item_def)
  from o' have o2': "projr (run fixture_no_default ?L (Some [''default''])) =
        join ''\<newline>''
          ([''# NginxSourceViewer'', ''# -----------------'',
            ''# Requested languages: python: [.](py)$'',
            ''# Requested styles: default'',
            ''# Missing languages: None''] @
           [''# Missing styles: default''] @
           [location_line ''[.](py)$'' ''python''] @ handler (minify fixture html))"
    by (simp add: m ml it possible_languages_fixture item_def)
  from h o2 o2' have "\<exists>html.
      assemble ''3.4.1'' ''9.15.6'' ''2.7.0'' [''default''] = Inr html \<and>
      projr (run fixture [(''python'', ''[.](py)$'')] (Some [''default''])) =
        join ''\<newline>''
          ([''# NginxSourceViewer'', ''# -----------------'',
            ''# Requested languages: python: [.](py)$'',
            ''# Requested styles: default'',
            ''# Missing languages: None''] @
           [''# Missing styles: None''] @
           [location_line ''[.](py)$'' ''python''] @ handler (minify fixture html)) \<and>
      projr (run fixture_no_default [(''python'', ''[.](py)$'')] (Some [''default''])) =
        join ''\<newline>''
          ([''# NginxSourceViewer'', ''# -----------------'',
            ''# Requested languages: python: [.](py)$'',
            ''# Requested styles: default'',
            ''# Missing languages: None''] @
           [''# Missing styles: default''] @
           [location_line ''[.](py)$'' ''python''] @ handler (minify fixture html))"
    by blast
  with minify_fixture_no_default p ok ok' show ?thesis by blast
qed

end
